theory Spec2Isabelle
  imports Main "HOL-Library.AList"
begin

section \<open>Module trees, meshes and plans\<close>

text \<open>
  The function under study is \<^verbatim>\<open>parallelize_module\<close> of
  \<^verbatim>\<open>torch/distributed/tensor/parallel/api.py\<close>. Python modules are mutable objects
  that are shared by reference, and the function throws away the value of its recursive
  calls inside the wildcard loop, so what those calls do is visible only through the
  objects they mutate. The model therefore keeps modules in a store: an address names a
  module object, and the store maps every address to the object's content.

  A module object has an opaque payload (here a number, which a parallel style is free to
  change) and the ordered dictionary \<^verbatim>\<open>_modules\<close> of its named children, an
  association list from child name to child address in insertion order.
\<close>

type_synonym addr = nat

record module =
  payload :: nat
  modules :: "(string \<times> addr) list"

type_synonym heap = "addr \<Rightarrow> module"

text \<open>
  The device mesh is read only: its number of dimensions, whether the RNG coordination is
  supported on it (\<^verbatim>\<open>is_rng_supported_mesh\<close>), and its device type.
\<close>

record mesh =
  ndim :: nat
  rng_supported :: bool
  device_type :: string

text \<open>
  The process-wide \<^verbatim>\<open>random._rng_tracker\<close>: absent (\<^verbatim>\<open>None\<close>), some tracker of
  another class, or a \<^verbatim>\<open>TensorParallelRNGTracker\<close> with its device type, the seed it
  was given (if any) and its \<^verbatim>\<open>distribute_region_enabled\<close> flag.
\<close>

datatype rng_tracker =
    NoTracker
  | OtherTracker
  | TensorParallelRNGTracker string "nat option" bool

record state =
  heap :: heap
  tracker :: rng_tracker

text \<open>
  A parallel style is the external capability \<^verbatim>\<open>_apply(module, device_mesh)\<close>: it
  receives a module and the mesh, may mutate module objects, and returns a module
  (the same object or another one). It is any function of the module, the mesh and the
  store; it has no access to the RNG tracker.
\<close>

type_synonym style = "addr \<Rightarrow> mesh \<Rightarrow> heap \<Rightarrow> addr \<times> heap"

text \<open>
  The plan argument: a single style, a dictionary from module path to style (in insertion
  order), or a value of any other type.
\<close>

datatype plan =
    ParallelStyle style
  | PlanDict "(string \<times> style) list"
  | OtherPlan

text \<open>
  The exceptions the function can raise. \<open>InvalidTopologyError\<close> is the error of
  \<^verbatim>\<open>_validate_tp_mesh_dim\<close>, \<open>InvalidPlanKeyError\<close> the \<^verbatim>\<open>ValueError\<close> of line 94,
  \<open>AssertionError\<close> the failed \<^verbatim>\<open>assert\<close> of line 134, \<open>RuntimeError\<close> the wrapped
  lookup fault of line 124 and \<open>InvalidPlanTypeError\<close> the \<^verbatim>\<open>TypeError\<close> of line 143.
  An exception leaves the mutations made so far in place, so every operation returns the
  state together with its outcome.
\<close>

datatype error =
    InvalidTopologyError
  | InvalidPlanKeyError
  | AssertionError
  | RuntimeError
  | InvalidPlanTypeError

type_synonym 'a result = "(error + 'a) \<times> state"

section \<open>Strings: split and join on the dot\<close>

text \<open>
  Python's \<^verbatim>\<open>s.split(".")\<close> and \<^verbatim>\<open>".".join(xs)\<close>. The split of the empty string is
  the list holding the empty string.
\<close>

fun split_dot :: "string \<Rightarrow> string list" where
  "split_dot [] = [[]]"
| "split_dot (c # cs) =
     (if c = CHR ''.'' then [] # split_dot cs
      else (c # hd (split_dot cs)) # tl (split_dot cs))"

fun join_dot :: "string list \<Rightarrow> string" where
  "join_dot [] = []"
| "join_dot [x] = x"
| "join_dot (x # y # ys) = x @ ''.'' @ join_dot (y # ys)"

section \<open>The collaborators\<close>

text \<open>
  Modelled from the spec: \<^verbatim>\<open>_validate_tp_mesh_dim\<close> (in
  \<^verbatim>\<open>torch/distributed/tensor/parallel/_utils.py\<close>, not among the sources) fails when
  the topology's dimensionality is not exactly 1 and has no other effect.
\<close>

definition validate_tp_mesh_dim :: "mesh \<Rightarrow> bool" where
  "validate_tp_mesh_dim device_mesh = (ndim device_mesh = 1)"

text \<open>
  Modelled from the spec: \<^verbatim>\<open>is_rng_supported_mesh\<close> (in
  \<^verbatim>\<open>torch/distributed/_tensor/random.py\<close>) is the capability of the topology that
  tells whether RNG coordination is supported.
\<close>

definition is_rng_supported_mesh :: "mesh \<Rightarrow> bool" where
  "is_rng_supported_mesh device_mesh = rng_supported device_mesh"

text \<open>\<^verbatim>\<open>isinstance(random._rng_tracker, TensorParallelRNGTracker)\<close>.\<close>

fun isinstance_tp :: "rng_tracker \<Rightarrow> bool" where
  "isinstance_tp (TensorParallelRNGTracker d sd f) = True"
| "isinstance_tp NoTracker = False"
| "isinstance_tp OtherTracker = False"

text \<open>
  Modelled from the spec: the constructor of \<^verbatim>\<open>TensorParallelRNGTracker\<close> (in
  \<^verbatim>\<open>torch/distributed/_tensor/random.py\<close>) builds a tracker from a device kind. A new
  tracker is not seeded yet; its flag is set by the caller right after.
\<close>

definition new_tp_tracker :: "string \<Rightarrow> rng_tracker" where
  "new_tp_tracker dev = TensorParallelRNGTracker dev None True"

text \<open>
  Modelled from the spec: \<^verbatim>\<open>_manual_seed\<close> of the tracker seeds it from the topology
  and a base seed.
\<close>

fun manual_seed :: "mesh \<Rightarrow> nat \<Rightarrow> rng_tracker \<Rightarrow> rng_tracker" where
  "manual_seed device_mesh base_seed (TensorParallelRNGTracker d sd f) =
     TensorParallelRNGTracker d (Some base_seed) f"
| "manual_seed device_mesh base_seed t = t"

text \<open>
  Modelled from the spec: the tracker's mutable flag \<^verbatim>\<open>distribute_region_enabled\<close>,
  here the assignment to it.
\<close>

fun set_distribute_region_enabled :: "bool \<Rightarrow> rng_tracker \<Rightarrow> rng_tracker" where
  "set_distribute_region_enabled b (TensorParallelRNGTracker d sd f) =
     TensorParallelRNGTracker d sd b"
| "set_distribute_region_enabled b t = t"

text \<open>
  Lines 76 to 85: a tensor-parallel tracker is installed, seeded with 1234 and its flag
  cleared, when the mesh supports it and the current tracker is not one already.
\<close>

definition rng_bootstrap :: "mesh \<Rightarrow> state \<Rightarrow> state" where
  "rng_bootstrap device_mesh s =
     (if is_rng_supported_mesh device_mesh \<and> \<not> isinstance_tp (tracker s)
      then s\<lparr>tracker :=
               set_distribute_region_enabled False
                 (manual_seed device_mesh 1234 (new_tp_tracker (device_type device_mesh)))\<rparr>
      else s)"

text \<open>
  Modelled from the spec: \<^verbatim>\<open>children\<close> of \<^verbatim>\<open>torch.nn.Module\<close> (not among the
  sources) lists the immediate children of a node in declared order.
\<close>

definition children :: "heap \<Rightarrow> addr \<Rightarrow> addr list" where
  "children h m = map snd (modules (h m))"

text \<open>
  Modelled from the spec: \<^verbatim>\<open>get_submodule\<close> of \<^verbatim>\<open>torch.nn.Module\<close> (not among
  the sources), called with a single atom, looks an immediate child up by name and may
  report not-found, which is the \<^verbatim>\<open>AttributeError\<close> that the caller catches. The spec
  gives the lookup no other fault, so the \<^verbatim>\<open>RuntimeError\<close> of line 124 has no input
  that raises it here.
\<close>

definition get_submodule :: "heap \<Rightarrow> addr \<Rightarrow> string \<Rightarrow> addr option" where
  "get_submodule h m name = map_of (modules (h m)) name"

text \<open>
  Modelled from the spec: \<^verbatim>\<open>register_module\<close> of \<^verbatim>\<open>torch.nn.Module\<close> (not among
  the sources) replaces a named child of the parent by a new node. It is an assignment
  to the parent's ordered dictionary: in place when the name is there, and a new entry at
  the end when it is not.
\<close>

definition register_module :: "addr \<Rightarrow> string \<Rightarrow> addr \<Rightarrow> heap \<Rightarrow> heap" where
  "register_module parent name child h =
     h(parent := (h parent)\<lparr>modules := AList.update name child (modules (h parent))\<rparr>)"

section \<open>The plan applier\<close>

text \<open>
  \<open>parallelize_module\<close> is the function of the source. Its three loops are the three
  other functions: \<open>plan_items\<close> is the \<^verbatim>\<open>for\<close> over the dictionary's items,
  \<open>walk\<close> the \<^verbatim>\<open>while path_splits\<close> loop, carrying \<^verbatim>\<open>parent_module\<close>,
  \<^verbatim>\<open>leaf_module\<close> and \<^verbatim>\<open>atom\<close> and returning them at the end of the loop
  (\<^verbatim>\<open>leaf_module\<close> is \<open>None\<close> after the \<^verbatim>\<open>break\<close>), and \<open>fan_out\<close> the
  \<^verbatim>\<open>for submodule in parent_module.children()\<close> loop over the children listed when
  the loop starts. The call to \<^verbatim>\<open>torch._C._log_api_usage_once\<close> touches neither the
  modules nor the tracker and is left out.
\<close>

text \<open>
  Sizes for the termination argument: a recursive call always carries a strictly shorter
  module path, whatever the store holds.
\<close>

fun atoms_size :: "string list \<Rightarrow> nat" where
  "atoms_size [] = 0"
| "atoms_size (x # xs) = Suc (length x) + atoms_size xs"

fun items_size :: "(string \<times> style) list \<Rightarrow> nat" where
  "items_size [] = 0"
| "items_size ((k, st) # items) = Suc (length k) + items_size items"

fun plan_size :: "plan \<Rightarrow> nat" where
  "plan_size (ParallelStyle st) = 0"
| "plan_size (PlanDict items) = 4 * items_size items + 2"
| "plan_size OtherPlan = 0"

function
  parallelize_module :: "addr \<Rightarrow> mesh \<Rightarrow> plan \<Rightarrow> state \<Rightarrow> addr result" and
  plan_items :: "addr \<Rightarrow> mesh \<Rightarrow> (string \<times> style) list \<Rightarrow> state \<Rightarrow> unit result" and
  walk :: "mesh \<Rightarrow> style \<Rightarrow> addr \<Rightarrow> addr \<Rightarrow> string \<Rightarrow> string list \<Rightarrow> state
             \<Rightarrow> (addr \<times> addr option \<times> string) result" and
  fan_out :: "mesh \<Rightarrow> string \<Rightarrow> style \<Rightarrow> addr list \<Rightarrow> state \<Rightarrow> unit result"
where
  "parallelize_module module device_mesh parallelize_plan s =
     (if \<not> validate_tp_mesh_dim device_mesh then (Inl InvalidTopologyError, s)
      else
        let s1 = rng_bootstrap device_mesh s in
        (case parallelize_plan of
           ParallelStyle parallelize_style \<Rightarrow>
             (case parallelize_style module device_mesh (heap s1) of
                (r, h) \<Rightarrow> (Inr r, s1\<lparr>heap := h\<rparr>))
         | PlanDict items \<Rightarrow>
             (case plan_items module device_mesh items s1 of
                (Inl e, s2) \<Rightarrow> (Inl e, s2)
              | (Inr u, s2) \<Rightarrow> (Inr module, s2))
         | OtherPlan \<Rightarrow> (Inl InvalidPlanTypeError, s1)))"
| "plan_items module device_mesh [] s = (Inr (), s)"
| "plan_items module device_mesh ((module_path, parallelize_style) # items) s =
     (let path_splits = split_dot module_path in
      if length path_splits = 0 then (Inl InvalidPlanKeyError, s)
      else
        (case walk device_mesh parallelize_style module module [] path_splits s of
           (Inl e, s1) \<Rightarrow> (Inl e, s1)
         | (Inr (parent_module, None, atom), s1) \<Rightarrow>
             plan_items module device_mesh items s1
         | (Inr (parent_module, Some leaf_module, atom), s1) \<Rightarrow>
             (if \<not> length atom > 0 then (Inl AssertionError, s1)
              else
                (case parallelize_module leaf_module device_mesh
                        (ParallelStyle parallelize_style) s1 of
                   (Inl e, s2) \<Rightarrow> (Inl e, s2)
                 | (Inr r, s2) \<Rightarrow>
                     plan_items module device_mesh items
                       (s2\<lparr>heap := register_module parent_module atom r (heap s2)\<rparr>)))))"
| "walk device_mesh parallelize_style parent_module leaf_module atom [] s =
     (Inr (parent_module, Some leaf_module, atom), s)"
| "walk device_mesh parallelize_style parent_module leaf_module atom0 (atom # path_splits) s =
     (if atom = ''*'' then
        (let leaf_path = join_dot path_splits in
         case fan_out device_mesh leaf_path parallelize_style
                (children (heap s) parent_module) s of
           (Inl e, s1) \<Rightarrow> (Inl e, s1)
         | (Inr u, s1) \<Rightarrow>
             walk device_mesh parallelize_style parent_module leaf_module atom path_splits s1)
      else
        (case get_submodule (heap s) leaf_module atom of
           None \<Rightarrow> (Inr (leaf_module, None, atom), s)
         | Some sub \<Rightarrow>
             walk device_mesh parallelize_style leaf_module sub atom path_splits s))"
| "fan_out device_mesh leaf_path parallelize_style [] s = (Inr (), s)"
| "fan_out device_mesh leaf_path parallelize_style (submodule # rest) s =
     (case (if leaf_path \<noteq> []
            then parallelize_module submodule device_mesh
                   (PlanDict [(leaf_path, parallelize_style)]) s
            else parallelize_module submodule device_mesh
                   (ParallelStyle parallelize_style) s) of
        (Inl e, s1) \<Rightarrow> (Inl e, s1)
      | (Inr r, s1) \<Rightarrow> fan_out device_mesh leaf_path parallelize_style rest s1)"
  by pat_completeness auto

termination parallelize_module
proof -
  have ne: "split_dot p \<noteq> []" for p
    by (induction p) auto
  have sp: "atoms_size (split_dot p) = Suc (length p)" for p
  proof (induction p)
    case Nil
    show ?case by simp
  next
    case (Cons c cs)
    obtain x xs where "split_dot cs = x # xs"
      using ne [of cs] by (cases "split_dot cs") auto
    with Cons show ?case by auto
  qed
  have le: "length (join_dot xs) \<le> atoms_size xs" for xs
    by (induction xs rule: join_dot.induct) auto
  have jd: "4 * length (join_dot xs) < Suc (4 * atoms_size xs)" for xs
    using le [of xs] by simp
  show ?thesis
    by (relation "inv_image (less_than <*lex*> less_than)
         (\<lambda>x. case x of
            Inl (Inl (m, dm, p, s)) \<Rightarrow> (plan_size p, 0)
          | Inl (Inr (m, dm, items, s)) \<Rightarrow> (4 * items_size items + 1, 0)
          | Inr (Inl (dm, st, p, l, a, xs, s)) \<Rightarrow> (4 * atoms_size xs, 0)
          | Inr (Inr (dm, lp, st, cs, s)) \<Rightarrow> (4 * length lp + 7, length cs))")
       (auto simp: sp jd)
qed

section \<open>Example meshes, styles and trees\<close>

text \<open>
  Two meshes, two styles and a few small trees, on which the theorems below are run.
  \<open>mark\<close> is a style that works in place: it changes the payload of the module it is
  given and returns that same module. \<open>wrap\<close> returns a new module object that holds
  the original as its only child. In every tree the root is at address 0.
\<close>

definition mesh_1d :: mesh where
  "mesh_1d = \<lparr>ndim = 1, rng_supported = True, device_type = ''cuda''\<rparr>"

definition mesh_2d :: mesh where
  "mesh_2d = \<lparr>ndim = 2, rng_supported = True, device_type = ''cuda''\<rparr>"

definition tree_node :: "(string \<times> addr) list \<Rightarrow> module" where
  "tree_node cs = \<lparr>payload = 0, modules = cs\<rparr>"

definition empty_heap :: heap where
  "empty_heap = (\<lambda>a. tree_node [])"

definition mark :: style where
  "mark m device_mesh h = (m, h(m := (h m)\<lparr>payload := Suc (payload (h m))\<rparr>))"

definition wrap :: style where
  "wrap m device_mesh h =
     (m + 10, h(m + 10 := \<lparr>payload = Suc (payload (h m)), modules = [(''wrapped'', m)]\<rparr>))"

text \<open>The tree \<open>root{a{b{c: X}}}\<close> with \<open>a\<close>, \<open>b\<close>, \<open>X\<close> at 1, 2, 3.\<close>

definition literal_tree :: state where
  "literal_tree =
     \<lparr>heap = empty_heap(0 := tree_node [(''a'', 1)], 1 := tree_node [(''b'', 2)],
                         2 := tree_node [(''c'', 3)]),
      tracker = NoTracker\<rparr>"

text \<open>The tree \<open>root{a{b: X}}\<close> with \<open>a\<close>, \<open>X\<close> at 1, 2.\<close>

definition short_tree :: state where
  "short_tree =
     \<lparr>heap = empty_heap(0 := tree_node [(''a'', 1)], 1 := tree_node [(''b'', 2)]),
      tracker = NoTracker\<rparr>"

text \<open>The tree \<open>root{a{k1: X1, k2: X2}}\<close> with \<open>a\<close>, \<open>X1\<close>, \<open>X2\<close> at 1, 2, 3.\<close>

definition fan_tree :: state where
  "fan_tree =
     \<lparr>heap = empty_heap(0 := tree_node [(''a'', 1)],
                         1 := tree_node [(''k1'', 2), (''k2'', 3)]),
      tracker = NoTracker\<rparr>"

text \<open>The tree \<open>root{p{m{lin: X}, n{}}}\<close> with \<open>p\<close>, \<open>m\<close>, \<open>n\<close>, \<open>X\<close> at 1, 2, 3, 4.\<close>

definition lin_tree :: state where
  "lin_tree =
     \<lparr>heap = empty_heap(0 := tree_node [(''p'', 1)],
                         1 := tree_node [(''m'', 2), (''n'', 3)],
                         2 := tree_node [(''lin'', 4)]),
      tracker = NoTracker\<rparr>"

text \<open>The tree \<open>root{a}\<close> with \<open>a\<close> at 1.\<close>

definition star_tree :: state where
  "star_tree =
     \<lparr>heap = empty_heap(0 := tree_node [(''a'', 1)]),
      tracker = NoTracker\<rparr>"

text \<open>
  The tree \<open>root{a}\<close> in a process whose tracker is already the tensor-parallel one,
  seeded with 7 and with its flag set.
\<close>

definition seeded_tree :: state where
  "seeded_tree =
     \<lparr>heap = empty_heap(0 := tree_node [(''a'', 1)]),
      tracker = TensorParallelRNGTracker ''cuda'' (Some 7) True\<rparr>"

section \<open>Basic facts\<close>

text \<open>
  The equation of \<open>parallelize_module\<close> is unfolded on demand only, so that a call stays
  folded where a proof speaks about it as a whole.
\<close>

declare parallelize_module.simps [simp del]

text \<open>
  Splitting never gives the empty list; the split of the empty string holds one atom, the
  empty string.
\<close>

lemma split_dot_not_Nil: "split_dot p \<noteq> []"
  by (induction p) auto

lemma length_split_dot_pos: "0 < length (split_dot p)"
  using split_dot_not_Nil [of p] by simp

text \<open>The bootstrap leaves the modules alone, and is idempotent.\<close>

lemma heap_rng_bootstrap: "heap (rng_bootstrap dm s) = heap s"
  by (simp add: rng_bootstrap_def)

lemma rng_bootstrap_tp: "isinstance_tp (tracker s) \<Longrightarrow> rng_bootstrap dm s = s"
  by (simp add: rng_bootstrap_def)

lemma rng_bootstrap_idem: "rng_bootstrap dm (rng_bootstrap dm s) = rng_bootstrap dm s"
  by (simp add: rng_bootstrap_def new_tp_tracker_def)

text \<open>
  Once the tracker is the tensor-parallel one, no call changes it, whatever the plan and
  however the call ends. The proof follows the recursion of the four functions.
\<close>

lemma tracker_kept:
  "isinstance_tp (tracker s) \<Longrightarrow> tracker (snd (parallelize_module m dm p s)) = tracker s"
  "isinstance_tp (tracker s) \<Longrightarrow> tracker (snd (plan_items m dm items s)) = tracker s"
  "isinstance_tp (tracker s) \<Longrightarrow> tracker (snd (walk dm st pm lm a xs s)) = tracker s"
  "isinstance_tp (tracker s) \<Longrightarrow> tracker (snd (fan_out dm lp st cs s)) = tracker s"
proof (induction m dm p s and m dm items s and dm st pm lm a xs s and dm lp st cs s
       rule: parallelize_module_plan_items_walk_fan_out.induct)
  case (1 m dm p s)
  have bs: "rng_bootstrap dm s = s"
    using "1.prems" by (rule rng_bootstrap_tp)
  show ?case
  proof (cases "validate_tp_mesh_dim dm")
    case False
    then show ?thesis by (simp add: parallelize_module.simps)
  next
    case True
    show ?thesis
    proof (cases p)
      case (ParallelStyle st)
      then show ?thesis
        using True bs by (simp add: parallelize_module.simps split: prod.splits)
    next
      case (PlanDict items)
      have "tracker (snd (plan_items m dm items s)) = tracker s"
        using "1.IH" [of "rng_bootstrap dm s" items] True PlanDict bs "1.prems" by simp
      then show ?thesis
        using True bs PlanDict
        by (auto simp add: parallelize_module.simps split: prod.splits sum.splits)
    next
      case OtherPlan
      then show ?thesis
        using True bs by (simp add: parallelize_module.simps)
    qed
  qed
next
  case (2 m dm s)
  show ?case by simp
next
  case (3 m dm path st items s)
  have ne: "length (split_dot path) \<noteq> 0"
    using split_dot_not_Nil [of path] by simp
  obtain o1 s1 where w: "walk dm st m m [] (split_dot path) s = (o1, s1)"
    by fastforce
  have t1: "tracker s1 = tracker s"
    using "3.IH"(1) [OF refl ne "3.prems"] w by simp
  show ?case
  proof (cases o1)
    case (Inl e)
    then show ?thesis using w t1 ne by simp
  next
    case (Inr b)
    obtain pmod lf atom where b: "b = (pmod, lf, atom)"
      by (cases b) auto
    show ?thesis
    proof (cases lf)
      case None
      have "tracker (snd (plan_items m dm items s1)) = tracker s1"
        using "3.IH"(2) [OF refl ne w [symmetric] Inr b [symmetric] refl None] "3.prems" t1
        by simp
      then show ?thesis using w t1 ne Inr b None by simp
    next
      case (Some l)
      show ?thesis
      proof (cases "0 < length atom")
        case False
        then show ?thesis using w t1 ne Inr b Some by simp
      next
        case True
        then have nn: "\<not> \<not> 0 < length atom" by simp
        obtain o2 s2 where c: "parallelize_module l dm (ParallelStyle st) s1 = (o2, s2)"
          by fastforce
        have t2: "tracker s2 = tracker s1"
          using "3.IH"(3) [OF refl ne w [symmetric] Inr b [symmetric] refl Some nn]
            "3.prems" t1 c by simp
        show ?thesis
        proof (cases o2)
          case (Inl e)
          then show ?thesis using w t1 t2 ne Inr b Some True c by simp
        next
          case (Inr r)
          have "tracker (snd (plan_items m dm items
                  (s2\<lparr>heap := register_module pmod atom r (heap s2)\<rparr>))) = tracker s2"
            using "3.IH"(4) [OF refl ne w [symmetric] \<open>o1 = Inr b\<close> b [symmetric] refl Some nn
                c [symmetric] Inr] "3.prems" t1 t2
            by simp
          then show ?thesis using w t1 t2 ne \<open>o1 = Inr b\<close> b Some True c Inr by simp
        qed
      qed
    qed
  qed
next
  case (4 dm st pmod lmod atom s)
  show ?case by simp
next
  case (5 dm st pmod lmod atom0 atom xs s)
  show ?case
  proof (cases "atom = ''*''")
    case True
    obtain o1 s1 where f: "fan_out dm (join_dot xs) st (children (heap s) pmod) s = (o1, s1)"
      by fastforce
    have t1: "tracker s1 = tracker s"
      using "5.IH"(1) [OF True refl "5.prems"] f by simp
    show ?thesis
    proof (cases o1)
      case (Inl e)
      then show ?thesis using True f t1 by simp
    next
      case (Inr u)
      have "tracker (snd (walk dm st pmod lmod atom xs s1)) = tracker s1"
        using "5.IH"(2) [OF True refl f [symmetric] Inr] "5.prems" t1 by simp
      then show ?thesis using True f Inr t1 by simp
    qed
  next
    case False
    show ?thesis
    proof (cases "get_submodule (heap s) lmod atom")
      case None
      then show ?thesis using False by simp
    next
      case (Some sub)
      then show ?thesis using False "5.IH"(3) [OF False Some "5.prems"] by simp
    qed
  qed
next
  case (6 dm lp st s)
  show ?case by simp
next
  case (7 dm lp st sub rest s)
  let ?call = "if lp \<noteq> [] then parallelize_module sub dm (PlanDict [(lp, st)]) s
               else parallelize_module sub dm (ParallelStyle st) s"
  obtain o1 s1 where c: "?call = (o1, s1)"
    by fastforce
  have t1: "tracker s1 = tracker s"
  proof (cases "lp \<noteq> []")
    case True
    then show ?thesis using "7.IH"(1) [OF True "7.prems"] c by simp
  next
    case False
    then show ?thesis using "7.IH"(2) [OF False "7.prems"] c by simp
  qed
  show ?case
  proof (cases o1)
    case (Inl e)
    then show ?thesis using c t1 by (simp del: split_paired_All)
  next
    case (Inr r)
    have "tracker (snd (fan_out dm lp st rest s1)) = tracker s1"
      using "7.IH"(3) [OF c [symmetric] Inr] "7.prems" t1 by simp
    then show ?thesis using c Inr t1 by simp
  qed
qed

text \<open>
  After a call on a one-dimensional mesh that supports RNG coordination the tracker is the
  tensor-parallel one, so a second call on that mesh leaves it as the first call left it.
\<close>

lemma tracker_installed:
  assumes "ndim dm = 1" and "is_rng_supported_mesh dm"
  shows "isinstance_tp (tracker (snd (parallelize_module m dm p s)))"
proof -
  have tp: "isinstance_tp (tracker (rng_bootstrap dm s))"
    using assms(2) by (cases "tracker s") (simp_all add: rng_bootstrap_def new_tp_tracker_def)
  show ?thesis
  proof (cases p)
    case (ParallelStyle st)
    then show ?thesis
      using assms(1) tp
      by (simp add: Let_def parallelize_module.simps validate_tp_mesh_dim_def split: prod.splits)
  next
    case (PlanDict items)
    have "tracker (snd (plan_items m dm items (rng_bootstrap dm s))) = tracker (rng_bootstrap dm s)"
      using tp by (rule tracker_kept(2))
    then show ?thesis
      using assms(1) tp PlanDict
      by (auto simp add: Let_def parallelize_module.simps validate_tp_mesh_dim_def
            split: prod.splits sum.splits)
  next
    case OtherPlan
    then show ?thesis
      using assms(1) tp by (simp add: Let_def parallelize_module.simps validate_tp_mesh_dim_def)
  qed
qed

lemma second_call_keeps_tracker:
  assumes "ndim dm = 1" and "is_rng_supported_mesh dm"
  shows "tracker (snd (parallelize_module m' dm p' (snd (parallelize_module m dm p s))))
           = tracker (snd (parallelize_module m dm p s))"
  using tracker_installed [OF assms] by (rule tracker_kept(1))

text \<open>
  No call ends in \<open>InvalidPlanKeyError\<close>: the test of line 93 is never true, since the
  split of a string is never the empty list.
\<close>

lemma never_invalid_plan_key:
  "fst (parallelize_module m dm p s) \<noteq> Inl InvalidPlanKeyError"
  "fst (plan_items m dm items s) \<noteq> Inl InvalidPlanKeyError"
  "fst (walk dm st pm lm a xs s) \<noteq> Inl InvalidPlanKeyError"
  "fst (fan_out dm lp st cs s) \<noteq> Inl InvalidPlanKeyError"
proof (induction m dm p s and m dm items s and dm st pm lm a xs s and dm lp st cs s
       rule: parallelize_module_plan_items_walk_fan_out.induct)
  case (1 m dm p s)
  show ?case
  proof (cases "validate_tp_mesh_dim dm")
    case False
    then show ?thesis by (simp add: Let_def parallelize_module.simps)
  next
    case True
    show ?thesis
    proof (cases p)
      case (ParallelStyle st)
      then show ?thesis
        using True by (simp add: Let_def parallelize_module.simps split: prod.splits)
    next
      case (PlanDict items)
      have "fst (plan_items m dm items (rng_bootstrap dm s)) \<noteq> Inl InvalidPlanKeyError"
        using "1.IH" [of "rng_bootstrap dm s" items] True PlanDict by simp
      then show ?thesis
        using True PlanDict
        by (auto simp add: Let_def parallelize_module.simps split: prod.splits sum.splits)
    next
      case OtherPlan
      then show ?thesis
        using True by (simp add: Let_def parallelize_module.simps)
    qed
  qed
next
  case (2 m dm s)
  show ?case by simp
next
  case (3 m dm path st items s)
  have ne: "length (split_dot path) \<noteq> 0"
    using split_dot_not_Nil [of path] by simp
  obtain o1 s1 where w: "walk dm st m m [] (split_dot path) s = (o1, s1)"
    by fastforce
  have e1: "o1 \<noteq> Inl InvalidPlanKeyError"
    using "3.IH"(1) [OF refl ne] w by simp
  show ?case
  proof (cases o1)
    case (Inl e)
    then show ?thesis using w e1 ne by simp
  next
    case (Inr b)
    obtain pmod lf atom where b: "b = (pmod, lf, atom)"
      by (cases b) auto
    show ?thesis
    proof (cases lf)
      case None
      then show ?thesis
        using "3.IH"(2) [OF refl ne w [symmetric] Inr b [symmetric] refl None] w ne Inr b
        by simp
    next
      case (Some l)
      show ?thesis
      proof (cases "0 < length atom")
        case False
        then show ?thesis using w ne Inr b Some by simp
      next
        case True
        then have nn: "\<not> \<not> 0 < length atom" by simp
        obtain o2 s2 where c: "parallelize_module l dm (ParallelStyle st) s1 = (o2, s2)"
          by fastforce
        have e2: "o2 \<noteq> Inl InvalidPlanKeyError"
          using "3.IH"(3) [OF refl ne w [symmetric] Inr b [symmetric] refl Some nn] c by simp
        show ?thesis
        proof (cases o2)
          case (Inl e)
          then show ?thesis using w e2 ne Inr b Some True c by simp
        next
          case (Inr r)
          then show ?thesis
            using "3.IH"(4) [OF refl ne w [symmetric] \<open>o1 = Inr b\<close> b [symmetric] refl Some nn
                c [symmetric] Inr] w ne \<open>o1 = Inr b\<close> b Some True c
            by simp
        qed
      qed
    qed
  qed
next
  case (4 dm st pmod lmod atom s)
  show ?case by simp
next
  case (5 dm st pmod lmod atom0 atom xs s)
  show ?case
  proof (cases "atom = ''*''")
    case True
    obtain o1 s1 where f: "fan_out dm (join_dot xs) st (children (heap s) pmod) s = (o1, s1)"
      by fastforce
    have e1: "o1 \<noteq> Inl InvalidPlanKeyError"
      using "5.IH"(1) [OF True refl] f by simp
    show ?thesis
    proof (cases o1)
      case (Inl e)
      then show ?thesis using True f e1 by simp
    next
      case (Inr u)
      then show ?thesis
        using "5.IH"(2) [OF True refl f [symmetric] Inr] True f by simp
    qed
  next
    case False
    show ?thesis
    proof (cases "get_submodule (heap s) lmod atom")
      case None
      then show ?thesis using False by simp
    next
      case (Some sub)
      then show ?thesis using False "5.IH"(3) [OF False Some] by simp
    qed
  qed
next
  case (6 dm lp st s)
  show ?case by simp
next
  case (7 dm lp st sub rest s)
  let ?call = "if lp \<noteq> [] then parallelize_module sub dm (PlanDict [(lp, st)]) s
               else parallelize_module sub dm (ParallelStyle st) s"
  obtain o1 s1 where c: "?call = (o1, s1)"
    by fastforce
  have e1: "o1 \<noteq> Inl InvalidPlanKeyError"
  proof (cases "lp \<noteq> []")
    case True
    then show ?thesis using "7.IH"(1) [OF True] c by simp
  next
    case False
    then show ?thesis using "7.IH"(2) [OF False] c by simp
  qed
  show ?case
  proof (cases o1)
    case (Inl e)
    then show ?thesis using c e1 by simp
  next
    case (Inr r)
    then show ?thesis
      using "7.IH"(3) [OF c [symmetric] Inr] c by simp
  qed
qed

section \<open>The guard and the bootstrap\<close>

text \<open>
  Claim C9. When the mesh does not have exactly one dimension, the call fails with
  \<open>InvalidTopologyError\<close> before anything else happens: whatever the module and the plan,
  the state it returns is the state it was given, so no module was mutated, no style was
  applied and the tracker was neither installed nor seeded nor had its flag changed.
\<close>

theorem non_1d_mesh_rejected:
  "ndim device_mesh \<noteq> 1 \<Longrightarrow>
   parallelize_module module device_mesh parallelize_plan s = (Inl InvalidTopologyError, s)"
  by (simp add: parallelize_module.simps validate_tp_mesh_dim_def)

theorem non_1d_mesh_rejected_witness:
  "ndim mesh_2d \<noteq> 1 \<and>
   parallelize_module 0 mesh_2d (PlanDict [(''a.b.c'', mark)]) literal_tree
     = (Inl InvalidTopologyError, literal_tree)"
  using non_1d_mesh_rejected [of mesh_2d 0 "PlanDict [(''a.b.c'', mark)]" literal_tree]
  by (simp add: mesh_2d_def)

text \<open>
  Claim C8. When RNG coordination is supported for the mesh and the process-wide tracker is
  already the tensor-parallel one, a call leaves the tracker as it is: the same tracker,
  with the same seed and the same flag, whatever the module and the plan and however the
  call ends.
\<close>

theorem bootstrap_idempotent:
  "is_rng_supported_mesh device_mesh \<Longrightarrow> isinstance_tp (tracker s) \<Longrightarrow>
   tracker (snd (parallelize_module module device_mesh parallelize_plan s)) = tracker s"
  by (rule tracker_kept(1))

theorem bootstrap_idempotent_witness:
  "is_rng_supported_mesh mesh_1d \<and> isinstance_tp (tracker seeded_tree) \<and>
   tracker (snd (parallelize_module 0 mesh_1d (PlanDict [(''a'', mark)]) seeded_tree))
     = TensorParallelRNGTracker ''cuda'' (Some 7) True"
  using bootstrap_idempotent [of mesh_1d seeded_tree 0 "PlanDict [(''a'', mark)]"]
  by (simp add: mesh_1d_def is_rng_supported_mesh_def seeded_tree_def)

section \<open>Plans that need no path resolution\<close>

text \<open>
  Claim C7. On a one-dimensional mesh a plan that is a single style \<open>T\<close> returns exactly
  what \<open>T\<close> returns for the root and the mesh, and the modules afterwards are exactly as
  \<open>T\<close> left them: nothing is resolved or walked. Only the tracker bootstrap happens
  besides.
\<close>

theorem single_style_plan:
  "ndim device_mesh = 1 \<Longrightarrow>
   parallelize_module R device_mesh (ParallelStyle T) s =
     (Inr (fst (T R device_mesh (heap s))),
      (rng_bootstrap device_mesh s)\<lparr>heap := snd (T R device_mesh (heap s))\<rparr>)"
  by (simp add: parallelize_module.simps validate_tp_mesh_dim_def heap_rng_bootstrap
        split: prod.splits)

theorem single_style_plan_witness:
  "ndim mesh_1d = 1 \<and>
   fst (parallelize_module 0 mesh_1d (ParallelStyle wrap) literal_tree) = Inr 10 \<and>
   modules (heap (snd (parallelize_module 0 mesh_1d (ParallelStyle wrap) literal_tree)) 10)
     = [(''wrapped'', 0)] \<and>
   modules (heap (snd (parallelize_module 0 mesh_1d (ParallelStyle wrap) literal_tree)) 0)
     = [(''a'', 1)]"
  using single_style_plan [of mesh_1d 0 wrap literal_tree]
  by (simp add: mesh_1d_def wrap_def literal_tree_def tree_node_def empty_heap_def)

text \<open>
  Claim C10. On a one-dimensional mesh the empty dictionary returns the root it was given
  and leaves every module as it was; the state changes by the tracker bootstrap only.
\<close>

theorem empty_plan_dict:
  "ndim device_mesh = 1 \<Longrightarrow>
   parallelize_module module device_mesh (PlanDict []) s
     = (Inr module, rng_bootstrap device_mesh s) \<and>
   heap (rng_bootstrap device_mesh s) = heap s"
  by (simp add: parallelize_module.simps validate_tp_mesh_dim_def heap_rng_bootstrap)

theorem empty_plan_dict_witness:
  "ndim mesh_1d = 1 \<and>
   fst (parallelize_module 0 mesh_1d (PlanDict []) literal_tree) = Inr 0 \<and>
   heap (snd (parallelize_module 0 mesh_1d (PlanDict []) literal_tree)) = heap literal_tree"
  using empty_plan_dict [of mesh_1d 0 literal_tree]
  by (simp add: mesh_1d_def)

section \<open>Literal paths\<close>

text \<open>
  Claim C3. For the tree \<open>root{a{b{c: X}}}\<close> and the plan \<open>{"a.b.c": T}\<close> on a
  one-dimensional mesh, the call returns the root, and the modules afterwards are those
  that \<open>T\<close>, applied once to \<open>X\<close>, left behind, with the name \<open>c\<close> of \<open>b\<close> bound to the
  module \<open>T\<close> returned. Nothing else is written.
\<close>

theorem literal_exact_match:
  assumes "ndim device_mesh = 1"
    and "modules (heap s root) = [(''a'', a)]"
    and "modules (heap s a) = [(''b'', b)]"
    and "modules (heap s b) = [(''c'', x)]"
  shows "parallelize_module root device_mesh (PlanDict [(''a.b.c'', T)]) s =
     (Inr root,
      (rng_bootstrap device_mesh s)
        \<lparr>heap := register_module b ''c'' (fst (T x device_mesh (heap s)))
                   (snd (T x device_mesh (heap s)))\<rparr>)"
  using assms
  by (simp add: parallelize_module.simps validate_tp_mesh_dim_def heap_rng_bootstrap
        rng_bootstrap_idem get_submodule_def split: prod.splits)

theorem literal_exact_match_witness:
  "ndim mesh_1d = 1 \<and>
   modules (heap literal_tree 0) = [(''a'', 1)] \<and>
   modules (heap literal_tree 1) = [(''b'', 2)] \<and>
   modules (heap literal_tree 2) = [(''c'', 3)] \<and>
   fst (parallelize_module 0 mesh_1d (PlanDict [(''a.b.c'', wrap)]) literal_tree) = Inr 0 \<and>
   modules (heap (snd (parallelize_module 0 mesh_1d (PlanDict [(''a.b.c'', wrap)])
                         literal_tree)) 2) = [(''c'', 13)] \<and>
   heap (snd (parallelize_module 0 mesh_1d (PlanDict [(''a.b.c'', wrap)]) literal_tree)) 13
     = \<lparr>payload = 1, modules = [(''wrapped'', 3)]\<rparr> \<and>
   heap (snd (parallelize_module 0 mesh_1d (PlanDict [(''a.b.c'', wrap)]) literal_tree)) 0
     = heap literal_tree 0 \<and>
   heap (snd (parallelize_module 0 mesh_1d (PlanDict [(''a.b.c'', wrap)]) literal_tree)) 1
     = heap literal_tree 1 \<and>
   heap (snd (parallelize_module 0 mesh_1d (PlanDict [(''a.b.c'', wrap)]) literal_tree)) 3
     = heap literal_tree 3"
  using literal_exact_match [of mesh_1d literal_tree 0 1 2 3 wrap]
  by (simp add: mesh_1d_def wrap_def literal_tree_def tree_node_def empty_heap_def
        register_module_def)

text \<open>
  Claim C5. For the tree \<open>root{a{b: X}}\<close>, where \<open>X\<close> has no child named \<open>c\<close>, and the
  plan \<open>{"a.b.c": T}\<close> on a one-dimensional mesh, the call returns the root without an
  error and leaves every module as it was: the lookup of \<open>c\<close> ends the resolution of the
  path silently.
\<close>

theorem missing_literal_silent:
  assumes "ndim device_mesh = 1"
    and "modules (heap s root) = [(''a'', a)]"
    and "modules (heap s a) = [(''b'', x)]"
    and "get_submodule (heap s) x ''c'' = None"
  shows "parallelize_module root device_mesh (PlanDict [(''a.b.c'', T)]) s =
           (Inr root, rng_bootstrap device_mesh s) \<and>
         heap (rng_bootstrap device_mesh s) = heap s"
  using assms
  by (simp add: parallelize_module.simps validate_tp_mesh_dim_def heap_rng_bootstrap
        get_submodule_def)

theorem missing_literal_silent_witness:
  "ndim mesh_1d = 1 \<and>
   modules (heap short_tree 0) = [(''a'', 1)] \<and>
   modules (heap short_tree 1) = [(''b'', 2)] \<and>
   get_submodule (heap short_tree) 2 ''c'' = None \<and>
   fst (parallelize_module 0 mesh_1d (PlanDict [(''a.b.c'', mark)]) short_tree) = Inr 0 \<and>
   heap (snd (parallelize_module 0 mesh_1d (PlanDict [(''a.b.c'', mark)]) short_tree))
     = heap short_tree"
  using missing_literal_silent [of mesh_1d short_tree 0 1 2 mark]
  by (simp add: mesh_1d_def short_tree_def tree_node_def empty_heap_def get_submodule_def)

section \<open>What the code does on the wildcard and on the empty path\<close>

text \<open>
  The calls below are evaluated on the example trees with the in-place style \<open>mark\<close>,
  which counts in the payload how often a module was transformed.
\<close>

text \<open>
  Claim C1. For the tree \<open>root{a{k1: X1, k2: X2}}\<close> and the plan \<open>{"a.*": T}\<close> the claim
  expects \<open>X1\<close> and \<open>X2\<close> transformed and nothing else changed. The code instead loops
  over the children of \<open>parent_module\<close>, which is the root once \<open>a\<close> has been entered, so
  it transforms \<open>a\<close>; then it falls out of the \<^verbatim>\<open>while\<close> loop with \<open>leaf_module = a\<close> and
  \<open>atom = "*"\<close>, transforms \<open>a\<close> a second time and registers the result under the root as
  a new child named \<open>*\<close>. \<open>X1\<close> and \<open>X2\<close> are never transformed.
\<close>

theorem wildcard_fan_out_code:
  "fst (parallelize_module 0 mesh_1d (PlanDict [(''a.*'', mark)]) fan_tree) = Inr 0 \<and>
   modules (heap (snd (parallelize_module 0 mesh_1d (PlanDict [(''a.*'', mark)]) fan_tree)) 0)
     = [(''a'', 1), (''*'', 1)] \<and>
   heap (snd (parallelize_module 0 mesh_1d (PlanDict [(''a.*'', mark)]) fan_tree)) 1
     = \<lparr>payload = 2, modules = [(''k1'', 2), (''k2'', 3)]\<rparr> \<and>
   payload (heap (snd (parallelize_module 0 mesh_1d (PlanDict [(''a.*'', mark)]) fan_tree)) 2)
     = 0 \<and>
   payload (heap (snd (parallelize_module 0 mesh_1d (PlanDict [(''a.*'', mark)]) fan_tree)) 3)
     = 0"
  by (simp add: Let_def parallelize_module.simps validate_tp_mesh_dim_def rng_bootstrap_def
        is_rng_supported_mesh_def new_tp_tracker_def get_submodule_def children_def
        register_module_def mesh_1d_def mark_def fan_tree_def tree_node_def empty_heap_def)

text \<open>
  Claim C2. For the tree \<open>root{p{m{lin: X}, n{}}}\<close> and the plan \<open>{"p.*.lin": T}\<close> the
  claim expects \<open>X\<close> transformed. The code fans out over the children of the root (that
  is, over \<open>p\<close> alone) with the plan \<open>{"lin": T}\<close>, which finds no \<open>lin\<close> under \<open>p\<close>; the
  \<^verbatim>\<open>while\<close> loop then goes on with \<open>lin\<close> from \<open>p\<close> and stops there. No module is
  transformed and no error is raised.
\<close>

theorem wildcard_leaf_continuation_code:
  "fst (parallelize_module 0 mesh_1d (PlanDict [(''p.*.lin'', mark)]) lin_tree) = Inr 0 \<and>
   heap (snd (parallelize_module 0 mesh_1d (PlanDict [(''p.*.lin'', mark)]) lin_tree))
     = heap lin_tree \<and>
   payload (heap lin_tree 4) = 0 \<and>
   payload (snd (mark 4 mesh_1d (heap lin_tree)) 4) = 1"
  by (simp add: Let_def parallelize_module.simps validate_tp_mesh_dim_def rng_bootstrap_def
        is_rng_supported_mesh_def new_tp_tracker_def get_submodule_def children_def
        register_module_def mesh_1d_def mark_def lin_tree_def tree_node_def empty_heap_def)

text \<open>
  Claim C6. For a path that ends with the wildcard the claim expects nothing to happen
  after the fan-out. On the tree \<open>root{a}\<close> and the plan \<open>{"*": T}\<close> the code transforms
  \<open>a\<close> in the fan-out, then leaves the \<^verbatim>\<open>while\<close> loop with \<open>leaf_module\<close> still the root
  and \<open>atom = "*"\<close>, transforms the root as well and registers the result under the root
  as a new child named \<open>*\<close>.
\<close>

theorem trailing_wildcard_code:
  "fst (parallelize_module 0 mesh_1d (PlanDict [(''*'', mark)]) star_tree) = Inr 0 \<and>
   heap (snd (parallelize_module 0 mesh_1d (PlanDict [(''*'', mark)]) star_tree)) 0
     = \<lparr>payload = 1, modules = [(''a'', 1), (''*'', 0)]\<rparr> \<and>
   payload (heap (snd (parallelize_module 0 mesh_1d (PlanDict [(''*'', mark)]) star_tree)) 1)
     = 1"
  by (simp add: Let_def parallelize_module.simps validate_tp_mesh_dim_def rng_bootstrap_def
        is_rng_supported_mesh_def new_tp_tracker_def get_submodule_def children_def
        register_module_def mesh_1d_def mark_def star_tree_def tree_node_def empty_heap_def)

text \<open>
  Claim C4. The claim expects \<open>InvalidPlanKeyError\<close> for the empty path. The test of
  line 93 asks for an empty list of atoms, and the split of the empty string is the list
  with one empty atom, so the error is not raised: the empty atom is looked up as a child
  name, is not found, and the call returns the root with no error.
\<close>

theorem empty_path_code:
  "split_dot '''' = [''''] \<and>
   fst (parallelize_module 0 mesh_1d (PlanDict [('''', mark)]) short_tree) = Inr 0 \<and>
   heap (snd (parallelize_module 0 mesh_1d (PlanDict [('''', mark)]) short_tree))
     = heap short_tree"
  by (simp add: Let_def parallelize_module.simps validate_tp_mesh_dim_def rng_bootstrap_def
        is_rng_supported_mesh_def new_tp_tracker_def get_submodule_def children_def
        register_module_def mesh_1d_def mark_def short_tree_def tree_node_def empty_heap_def)

end
